theory Spec2Isabelle
  imports Main "HOL-Library.Sublist"
begin

section \<open>Strings, errors and exceptions\<close>

text \<open>
  The plugin is TypeScript. A JavaScript string is modelled as a \<^typ>\<open>string\<close>, a list of
  code units below 256 (ASCII and Latin-1, which covers every configuration value the
  plugin documents). An exception is a value: every \<^verbatim>\<open>throw new Error(msg)\<close> of the source
  is the result \<open>Inl (Error msg)\<close>, every normal return is \<open>Inr v\<close>.
\<close>

datatype error = Error (message: string)

text \<open>\<^verbatim>\<open>try { body } catch { handler }\<close>: the handler runs exactly when the body raised.\<close>

definition try_catch :: "(error + 'a) \<Rightarrow> (error \<Rightarrow> error + 'a) \<Rightarrow> error + 'a" where
  "try_catch body handler = (case body of Inl e \<Rightarrow> handler e | Inr v \<Rightarrow> Inr v)"

text \<open>
  \<^verbatim>\<open>String.prototype.toLowerCase\<close> on code units below 256: the letters A to Z and the
  Latin-1 capitals U+00C0 to U+00DE (the multiplication sign U+00D7 apart) move up by 32,
  every other code unit is kept.
\<close>

definition toLowerChar :: "char \<Rightarrow> char" where
  "toLowerChar c =
     (let n = (of_char c :: nat)
      in if (65 \<le> n \<and> n \<le> 90) \<or> (192 \<le> n \<and> n \<le> 222 \<and> n \<noteq> 215)
         then char_of (n + 32) else c)"

definition toLowerCase :: "string \<Rightarrow> string" where
  "toLowerCase s = map toLowerChar s"

text \<open>
  \<^verbatim>\<open>s.includes(sub)\<close>: \<open>sub\<close> occurs in \<open>s\<close> as a contiguous run of code units, found by
  trying every start position from the left.
\<close>

fun startsWith :: "string \<Rightarrow> string \<Rightarrow> bool" where
  "startsWith s [] = True"
| "startsWith [] (p # ps) = False"
| "startsWith (c # cs) (p # ps) = (c = p \<and> startsWith cs ps)"

fun includes_str :: "string \<Rightarrow> string \<Rightarrow> bool" where
  "includes_str [] sub = (sub = [])"
| "includes_str (c # cs) sub = (startsWith (c # cs) sub \<or> includes_str cs sub)"

section \<open>Chain identifiers (utils/signer.ts)\<close>

text \<open>
  Modelled from the spec: the three chain identifier constants are exported by the packages
  \<^verbatim>\<open>@aimo.network/svm\<close> and \<^verbatim>\<open>@aimo.network/evm\<close>, which are dependencies of the plugin and
  not part of its sources. Their values are the identifiers that the plugin's README lists
  for Solana mainnet, Solana devnet and Ethereum mainnet.
\<close>

definition SOLANA_MAINNET_CHAIN_ID :: string where
  "SOLANA_MAINNET_CHAIN_ID = ''solana:5eykt4UsFv8P8NJdTREpY1vzqKqZKvdp''"

definition SOLANA_DEVNET_CHAIN_ID :: string where
  "SOLANA_DEVNET_CHAIN_ID = ''solana:EtWTRABZaYq6iMfeYKouRu166VU2xqa1''"

definition EVM_MAINNET_CHAIN_ID :: string where
  "EVM_MAINNET_CHAIN_ID = ''eip155:1''"

text \<open>
  The type \<^verbatim>\<open>WalletType = "svm" | "evm"\<close> is erased at run time, where a wallet type is a
  string; the source itself ends with a branch for any other value.
\<close>

type_synonym WalletType = string

definition getChainIdForWallet :: "WalletType \<Rightarrow> string \<Rightarrow> error + string" where
  "getChainIdForWallet walletType chainIdString =
     (let lowerChain = toLowerCase chainIdString
      in if walletType = ''svm'' then
           (if includes_str lowerChain ''devnet'' then Inr SOLANA_DEVNET_CHAIN_ID
            else Inr SOLANA_MAINNET_CHAIN_ID)
         else if walletType = ''evm'' then
           (if includes_str lowerChain ''sepolia'' \<or> chainIdString = ''11155111''
            then Inr ''eip155:11155111''
            else Inr EVM_MAINNET_CHAIN_ID)
         else Inl (Error (''Unknown wallet type: '' @ walletType)))"

section \<open>Private key formats (utils/signer.ts)\<close>

text \<open>
  The packages \<^verbatim>\<open>bs58\<close>, \<^verbatim>\<open>@solana/kit\<close> and \<^verbatim>\<open>viem\<close> are dependencies, outside the sources.
  The three functions the signer code calls from them are parameters of the model, so that
  every theorem below holds for whatever these functions compute: \<open>bs58_decode\<close> for
  \<^verbatim>\<open>bs58.decode\<close> (\<open>Inl\<close> when it throws, otherwise the decoded bytes), and the two key
  constructors, which may throw as well.
\<close>

record ('k, 'a) libs =
  bs58_decode :: "string \<Rightarrow> error + nat list"
  createKeyPairSignerFromBytes :: "nat list \<Rightarrow> error + 'k"
  privateKeyToAccount :: "string \<Rightarrow> error + 'a"

definition validateSvmPrivateKey :: "('k, 'a) libs \<Rightarrow> string \<Rightarrow> error + bool" where
  "validateSvmPrivateKey L privateKey =
     try_catch
       (case bs58_decode L privateKey of
          Inl e \<Rightarrow> Inl e
        | Inr decoded \<Rightarrow> Inr (length decoded = 64))
       (\<lambda>_. Inr False)"

text \<open>
  The regular expressions the source needs: a sequence of items, each a character class
  repeated an exact number of times, anchored at both ends of the input. A class is a
  literal character or a union of ranges of code units. JavaScript's \<^verbatim>\<open>$\<close> without the
  multiline flag matches at the very end of the input only.
\<close>

datatype char_class = Lit char | Ranges "(char \<times> char) list"

fun class_matches :: "char_class \<Rightarrow> char \<Rightarrow> bool" where
  "class_matches (Lit l) c = (c = l)"
| "class_matches (Ranges rs) c =
     list_ex (\<lambda>(lo, hi). (of_char lo :: nat) \<le> of_char c \<and> (of_char c :: nat) \<le> of_char hi) rs"

fun match_repeat :: "char_class \<Rightarrow> nat \<Rightarrow> string \<Rightarrow> string option" where
  "match_repeat cl 0 s = Some s"
| "match_repeat cl (Suc n) [] = None"
| "match_repeat cl (Suc n) (c # cs) =
     (if class_matches cl c then match_repeat cl n cs else None)"

fun match_pattern :: "(char_class \<times> nat) list \<Rightarrow> string \<Rightarrow> string option" where
  "match_pattern [] s = Some s"
| "match_pattern ((cl, n) # items) s =
     (case match_repeat cl n s of None \<Rightarrow> None | Some rest \<Rightarrow> match_pattern items rest)"

definition regex_test :: "(char_class \<times> nat) list \<Rightarrow> string \<Rightarrow> bool" where
  "regex_test pattern s = (match_pattern pattern s = Some [])"

text \<open>The class \<^verbatim>\<open>[0-9a-fA-F]\<close> and the test \<^verbatim>\<open>/^0x[0-9a-fA-F]{64}$/.test(privateKey)\<close>.\<close>

definition EVM_KEY_HEX :: char_class where
  "EVM_KEY_HEX = Ranges [(CHR ''0'', CHR ''9''), (CHR ''a'', CHR ''f''), (CHR ''A'', CHR ''F'')]"

definition validateEvmPrivateKey :: "string \<Rightarrow> bool" where
  "validateEvmPrivateKey privateKey =
     regex_test [(Lit CHR ''0'', 1), (Lit CHR ''x'', 1), (EVM_KEY_HEX, 64)] privateKey"

definition validateWalletConfig :: "('k, 'a) libs \<Rightarrow> WalletType \<Rightarrow> string \<Rightarrow> error + bool" where
  "validateWalletConfig L walletType privateKey =
     (if walletType = ''svm'' then validateSvmPrivateKey L privateKey
      else if walletType = ''evm'' then Inr (validateEvmPrivateKey privateKey)
      else Inr False)"

section \<open>Signer construction (utils/signer.ts)\<close>

text \<open>
  A signer object keeps what its constructor was given: the key object made by the
  external library and the chain identifier. A chain identifier that is \<^verbatim>\<open>undefined\<close>
  (\<open>None\<close>) takes the parameter's default, the family's mainnet constant.
\<close>

datatype ('k, 'a) signer =
    SvmClientSigner 'k string
  | EvmClientSigner 'a string

definition createSvmSigner ::
  "('k, 'a) libs \<Rightarrow> string \<Rightarrow> string option \<Rightarrow> error + ('k, 'a) signer" where
  "createSvmSigner L privateKey chainId =
     (case bs58_decode L privateKey of
        Inl e \<Rightarrow> Inl e
      | Inr privateKeyBytes \<Rightarrow>
          (case createKeyPairSignerFromBytes L privateKeyBytes of
             Inl e \<Rightarrow> Inl e
           | Inr keypairSigner \<Rightarrow>
               Inr (SvmClientSigner keypairSigner
                      (case chainId of None \<Rightarrow> SOLANA_MAINNET_CHAIN_ID | Some c \<Rightarrow> c))))"

definition createEvmSigner ::
  "('k, 'a) libs \<Rightarrow> string \<Rightarrow> string option \<Rightarrow> error + ('k, 'a) signer" where
  "createEvmSigner L privateKey chainId =
     (case privateKeyToAccount L privateKey of
        Inl e \<Rightarrow> Inl e
      | Inr account \<Rightarrow>
          Inr (EvmClientSigner account
                 (case chainId of None \<Rightarrow> EVM_MAINNET_CHAIN_ID | Some c \<Rightarrow> c)))"

text \<open>
  A \<^verbatim>\<open>SignerConfig\<close> object as it exists at run time: the interface declares
  \<^verbatim>\<open>walletType\<close> and \<^verbatim>\<open>privateKey\<close> as required, but \<^verbatim>\<open>createSignerFromConfig\<close> itself tests
  them, so each field is a string or \<^verbatim>\<open>undefined\<close> (\<open>None\<close>).
\<close>

record SignerConfig =
  walletType :: "string option"
  privateKey :: "string option"
  chainId :: "string option"

text \<open>
  JavaScript's \<^verbatim>\<open>!v\<close> for a value that is a string or \<^verbatim>\<open>undefined\<close>: true for \<^verbatim>\<open>undefined\<close> and
  for the empty string.
\<close>

definition falsy :: "string option \<Rightarrow> bool" where
  "falsy v = (case v of None \<Rightarrow> True | Some s \<Rightarrow> s = [])"

definition expectedFormat :: "WalletType \<Rightarrow> string" where
  "expectedFormat wt =
     (if wt = ''svm'' then ''base58 encoded (64 bytes when decoded)''
      else ''hex string starting with 0x (64 hex characters)'')"

text \<open>
  The factory. The three checks, the chain identifier, then the dispatch on the wallet
  type, in the order of the source. The call of \<^verbatim>\<open>logger.info\<close> between the chain
  identifier and the dispatch writes a log line and is left out.
\<close>

definition createSignerFromConfig ::
  "('k, 'a) libs \<Rightarrow> SignerConfig \<Rightarrow> error + ('k, 'a) signer" where
  "createSignerFromConfig L config =
     (case walletType config of
        None \<Rightarrow> Inl (Error ''Wallet type is required (svm or evm)'')
      | Some wt \<Rightarrow>
        if wt = [] then Inl (Error ''Wallet type is required (svm or evm)'')
        else
         (case privateKey config of
            None \<Rightarrow> Inl (Error ''Private key is required'')
          | Some pk \<Rightarrow>
            if pk = [] then Inl (Error ''Private key is required'')
            else
             (case validateWalletConfig L wt pk of
                Inl e \<Rightarrow> Inl e
              | Inr valid \<Rightarrow>
                if \<not> valid then
                  Inl (Error (''Invalid private key format for '' @ wt
                              @ '' wallet. Expected: '' @ expectedFormat wt))
                else
                 (case (case chainId config of
                          None \<Rightarrow> Inr None
                        | Some cid \<Rightarrow>
                            if cid = [] then Inr None
                            else map_sum id Some (getChainIdForWallet wt cid)) of
                    Inl e \<Rightarrow> Inl e
                  | Inr chain \<Rightarrow>
                      if wt = ''svm'' then createSvmSigner L pk chain
                      else if wt = ''evm'' then createEvmSigner L pk chain
                      else Inl (Error (''Unknown wallet type: '' @ wt))))))"

section \<open>Configuration lookup (utils/config.ts)\<close>

text \<open>
  What \<^verbatim>\<open>runtime.getSetting(key)\<close> can return: \<^verbatim>\<open>undefined\<close>, \<^verbatim>\<open>null\<close>, a string, a number or a
  boolean.

  A number is given by what \<^verbatim>\<open>Number::toString\<close> reads off it: not-a-number, an infinity,
  a zero, or a sign with the integers \<open>s\<close> and \<open>n\<close> of the language definition, where \<open>s\<close> is
  the shortest decimal significand that reads back as the number (\<open>k\<close> digits) and the
  magnitude is \<^verbatim>\<open>s * 10^(n-k)\<close>. So \<open>42\<close> is \<open>Finite False 42 2\<close>, \<open>0.5\<close> is
  \<open>Finite False 5 0\<close> and \<open>1e21\<close> is \<open>Finite False 1 22\<close>. Finding \<open>s\<close> and \<open>n\<close> from the
  binary64 value is floating-point arithmetic and stays outside; printing them is
  \<open>number_toString\<close>, clause by clause.
\<close>

datatype js_number = NaN | PosInfinity | NegInfinity | Zero | Finite bool nat int

datatype js_value = Undefined | Null | Str string | Num js_number | Bool bool

fun nat_digits :: "nat \<Rightarrow> string" where
  "nat_digits n =
     (if n < 10 then [''0123456789'' ! n]
      else nat_digits (n div 10) @ [''0123456789'' ! (n mod 10)])"

declare nat_digits.simps [simp del]

text \<open>
  The digits of \<open>s\<close> for the decimal point at \<open>n\<close>: plain notation for \<open>-5 \<le> n \<le> 21\<close> (an
  integer padded with zeros, a point inside the digits, or \<open>0.\<close> and zeros before them),
  exponent notation otherwise.
\<close>

definition format_decimal :: "nat \<Rightarrow> int \<Rightarrow> string" where
  "format_decimal s n =
     (let ds = nat_digits s; k = int (length ds)
      in if - 5 \<le> n \<and> n \<le> 21 then
           (if k \<le> n then ds @ replicate (nat (n - k)) CHR ''0''
            else if 0 < n then take (nat n) ds @ ''.'' @ drop (nat n) ds
            else ''0.'' @ replicate (nat (- n)) CHR ''0'' @ ds)
         else
           (let e = n - 1;
                exponent = (if 0 < e then ''+'' else ''-'') @ nat_digits (nat \<bar>e\<bar>)
            in if k = 1 then ds @ ''e'' @ exponent
               else take 1 ds @ ''.'' @ drop 1 ds @ ''e'' @ exponent))"

fun number_toString :: "js_number \<Rightarrow> string" where
  "number_toString NaN = ''NaN''"
| "number_toString Zero = ''0''"
| "number_toString PosInfinity = ''Infinity''"
| "number_toString NegInfinity = ''-Infinity''"
| "number_toString (Finite negative s n) =
     (if negative then ''-'' @ format_decimal s n else format_decimal s n)"

fun String_js :: "js_value \<Rightarrow> string" where
  "String_js Undefined = ''undefined''"
| "String_js Null = ''null''"
| "String_js (Str s) = s"
| "String_js (Num x) = number_toString x"
| "String_js (Bool b) = (if b then ''true'' else ''false'')"

text \<open>
  The runtime is its \<^verbatim>\<open>getSetting\<close> method, a function from keys to values. The process
  environment is the map of the environment variables, the own properties of the object
  \<^verbatim>\<open>process.env\<close>. The expression \<^verbatim>\<open>process.env[key]\<close> is a property read: an environment
  variable of that name gives its string; without one the read goes on to the prototype
  of the object, \<^verbatim>\<open>Object.prototype\<close>, and gives the property of that name there, a function
  or an object, when \<open>key\<close> is one of its twelve property names; otherwise it gives
  \<^verbatim>\<open>undefined\<close>.
\<close>

type_synonym runtime = "string \<Rightarrow> js_value"
type_synonym process_env = "string \<rightharpoonup> string"

definition OBJECT_PROTOTYPE_KEYS :: "string list" where
  "OBJECT_PROTOTYPE_KEYS =
     [''constructor'', ''__defineGetter__'', ''__defineSetter__'', ''hasOwnProperty'',
      ''__lookupGetter__'', ''__lookupSetter__'', ''isPrototypeOf'',
      ''propertyIsEnumerable'', ''toString'', ''valueOf'', ''__proto__'',
      ''toLocaleString'']"

text \<open>
  What \<^verbatim>\<open>getSetting\<close> returns. Its declared type is \<^verbatim>\<open>string | undefined\<close>, \<open>Text\<close> and
  \<open>Unset\<close>; \<open>Inherited name\<close> is the property \<open>name\<close> of \<^verbatim>\<open>Object.prototype\<close>, the one value
  that leaves the declared type.
\<close>

datatype setting = Unset | Text string | Inherited string

definition env_lookup :: "process_env \<Rightarrow> string \<Rightarrow> setting" where
  "env_lookup env key =
     (case env key of
        Some v \<Rightarrow> Text v
      | None \<Rightarrow> if key \<in> set OBJECT_PROTOTYPE_KEYS then Inherited key else Unset)"

text \<open>\<^verbatim>\<open>a ?? b\<close> is \<open>b\<close> exactly when \<open>a\<close> is \<^verbatim>\<open>undefined\<close> or \<^verbatim>\<open>null\<close>.\<close>

definition getSetting ::
  "runtime \<Rightarrow> process_env \<Rightarrow> string \<Rightarrow> string option \<Rightarrow> setting" where
  "getSetting runtime env key defaultValue =
     (let value = runtime key
      in if value \<noteq> Undefined \<and> value \<noteq> Null then Text (String_js value)
         else (case env_lookup env key of
                 Unset \<Rightarrow> (case defaultValue of None \<Rightarrow> Unset | Some d \<Rightarrow> Text d)
               | Text v \<Rightarrow> Text v
               | Inherited name \<Rightarrow> Inherited name))"

text \<open>
  \<^verbatim>\<open>!v\<close> for a result of \<^verbatim>\<open>getSetting\<close>: true for \<^verbatim>\<open>undefined\<close> and the empty string; a
  function or an object is truthy.
\<close>

definition falsy_setting :: "setting \<Rightarrow> bool" where
  "falsy_setting v = (case v of Unset \<Rightarrow> True | Text s \<Rightarrow> s = [] | Inherited name \<Rightarrow> False)"

text \<open>
  A result of \<^verbatim>\<open>getSetting\<close> at its declared type \<^verbatim>\<open>string | undefined\<close>. The three readers
  below pass fixed keys, \<open>AIMO_WALLET_TYPE\<close>, \<open>AIMO_PRIVATE_KEY\<close> and \<open>AIMO_CHAIN_ID\<close>, none of
  them a property name of \<^verbatim>\<open>Object.prototype\<close>, so that their results are never \<open>Inherited\<close>
  (lemma \<open>getSetting_not_Inherited\<close>) and the last clause is never used.
\<close>

fun declared_string :: "setting \<Rightarrow> string option" where
  "declared_string Unset = None"
| "declared_string (Text s) = Some s"
| "declared_string (Inherited name) = None"

definition getWalletType :: "runtime \<Rightarrow> process_env \<Rightarrow> WalletType option" where
  "getWalletType runtime env =
     (let wt = getSetting runtime env ''AIMO_WALLET_TYPE'' None
      in if falsy_setting wt \<or> (wt \<noteq> Text ''svm'' \<and> wt \<noteq> Text ''evm'') then None
         else declared_string wt)"

definition getPrivateKey :: "runtime \<Rightarrow> process_env \<Rightarrow> string option" where
  "getPrivateKey runtime env =
     declared_string (getSetting runtime env ''AIMO_PRIVATE_KEY'' None)"

text \<open>\<^verbatim>\<open>getSetting(runtime, "AIMO_CHAIN_ID") || undefined\<close>.\<close>

definition getChainId :: "runtime \<Rightarrow> process_env \<Rightarrow> string option" where
  "getChainId runtime env =
     (let v = getSetting runtime env ''AIMO_CHAIN_ID'' None
      in if falsy_setting v then None else declared_string v)"

definition getSignerConfig :: "runtime \<Rightarrow> process_env \<Rightarrow> SignerConfig option" where
  "getSignerConfig runtime env =
     (let wt = getWalletType runtime env;
          pk = getPrivateKey runtime env;
          cid = getChainId runtime env
      in if falsy wt \<or> falsy pk then None
         else Some \<lparr>walletType = wt, privateKey = pk, chainId = cid\<rparr>)"

section \<open>A reference instance of the external libraries\<close>

text \<open>
  Modelled from the spec: the package \<^verbatim>\<open>bs58\<close> is not part of the sources. This is base58
  decoding over the Bitcoin alphabet, the encoding the spec names for SVM keys: each
  leading \<open>1\<close> is a zero byte, the remaining characters are the digits of a number in base
  58, most significant first, written out in bytes; a character outside the alphabet makes
  the decoder throw. It is used to evaluate the model on concrete keys only.
\<close>

definition BASE58_ALPHABET :: string where
  "BASE58_ALPHABET = ''123456789ABCDEFGHJKLMNPQRSTUVWXYZabcdefghijkmnopqrstuvwxyz''"

fun index_from :: "nat \<Rightarrow> char \<Rightarrow> string \<Rightarrow> nat option" where
  "index_from i c [] = None"
| "index_from i c (x # xs) = (if c = x then Some i else index_from (i + 1) c xs)"

text \<open>One step of the decoder: the bytes so far, least significant first, times 58 plus a digit.\<close>

fun mul58_add :: "nat list \<Rightarrow> nat \<Rightarrow> nat list" where
  "mul58_add [] carry = (if carry = 0 then [] else [carry])"
| "mul58_add (b # bs) carry =
     ((b * 58 + carry) mod 256) # mul58_add bs ((b * 58 + carry) div 256)"

fun decode_digits :: "string \<Rightarrow> nat list \<Rightarrow> error + nat list" where
  "decode_digits [] b256 = Inr b256"
| "decode_digits (c # cs) b256 =
     (case index_from 0 c BASE58_ALPHABET of
        None \<Rightarrow> Inl (Error ''Non-base58 character'')
      | Some carry \<Rightarrow> decode_digits cs (mul58_add b256 carry))"

definition base58_decode :: "string \<Rightarrow> error + nat list" where
  "base58_decode source =
     (let zeroes = length (takeWhile (\<lambda>c. c = CHR ''1'') source)
      in case decode_digits (dropWhile (\<lambda>c. c = CHR ''1'') source) [] of
           Inl e \<Rightarrow> Inl e
         | Inr b256 \<Rightarrow> Inr (replicate zeroes 0 @ rev b256))"

text \<open>
  The key constructors of the reference instance keep their argument and never throw.
\<close>

definition reference_libs :: "(nat list, string) libs" where
  "reference_libs =
     \<lparr>bs58_decode = base58_decode,
      createKeyPairSignerFromBytes = Inr,
      privateKeyToAccount = Inr\<rparr>"

text \<open>
  Concrete settings stores and environments: a store built from a list of entries answers
  \<^verbatim>\<open>undefined\<close> for a key it does not hold, an environment is the map of its entries.
\<close>

definition runtime_of :: "(string \<times> js_value) list \<Rightarrow> runtime" where
  "runtime_of entries key = (case map_of entries key of Some v \<Rightarrow> v | None \<Rightarrow> Undefined)"

definition env_of :: "(string \<times> string) list \<Rightarrow> process_env" where
  "env_of entries = map_of entries"

text \<open>The hexadecimal digits, written out.\<close>

definition hexDigits :: "char set" where
  "hexDigits = set ''0123456789abcdefABCDEF''"

section \<open>Substring search\<close>

lemma startsWith_prefix: "startsWith s p \<longleftrightarrow> prefix p s"
  by (induction s p rule: startsWith.induct) auto

lemma includes_str_sublist: "includes_str s sub \<longleftrightarrow> sublist sub s"
  by (induction s) (auto simp: startsWith_prefix sublist_Cons_right)

section \<open>Chain identifier resolution\<close>

lemma getChainIdForWallet_evm_rule:
  "getChainIdForWallet ''evm'' s =
     Inr (if sublist ''sepolia'' (toLowerCase s) \<or> s = ''11155111''
          then ''eip155:11155111'' else EVM_MAINNET_CHAIN_ID)"
  by (simp add: getChainIdForWallet_def includes_str_sublist)

lemma getChainIdForWallet_svm_rule:
  "getChainIdForWallet ''svm'' s =
     Inr (if sublist ''devnet'' (toLowerCase s)
          then SOLANA_DEVNET_CHAIN_ID else SOLANA_MAINNET_CHAIN_ID)"
  by (simp add: getChainIdForWallet_def includes_str_sublist)

text \<open>
  C1: the claim has \<open>eip155:11155111\<close> resolve to the Sepolia identifier for the wallet
  type \<open>evm\<close>, as the bare number \<open>11155111\<close> does; it is the identifier the README gives
  for Sepolia, in the form the README gives to \<open>AIMO_CHAIN_ID\<close>. The code does not: the
  input does not contain \<open>sepolia\<close> and is not the bare number, so the EVM branch returns
  the mainnet constant for it.
\<close>

theorem C1_eip155_sepolia_resolves_to_mainnet:
  "getChainIdForWallet ''evm'' ''eip155:11155111'' = Inr EVM_MAINNET_CHAIN_ID
   \<and> getChainIdForWallet ''evm'' ''eip155:11155111'' \<noteq> Inr ''eip155:11155111''
   \<and> getChainIdForWallet ''evm'' ''11155111'' = Inr ''eip155:11155111''"
  by code_simp

text \<open>
  C5: for the wallet type \<open>svm\<close> and every chain-id string \<open>s\<close>, \<open>getChainIdForWallet\<close>
  returns the Solana devnet constant if the lowercased \<open>s\<close> contains \<open>devnet\<close>, and the
  Solana mainnet constant in every other case; \<open>mainnet\<close>, the empty string and \<open>testnet\<close>
  all resolve to mainnet (there is no testnet branch), \<open>devnet\<close> to devnet.
\<close>

theorem C5_getChainIdForWallet_svm:
  "getChainIdForWallet ''svm'' s =
     Inr (if sublist ''devnet'' (toLowerCase s)
          then SOLANA_DEVNET_CHAIN_ID else SOLANA_MAINNET_CHAIN_ID)
   \<and> getChainIdForWallet ''svm'' ''devnet'' = Inr SOLANA_DEVNET_CHAIN_ID
   \<and> getChainIdForWallet ''svm'' ''mainnet'' = Inr SOLANA_MAINNET_CHAIN_ID
   \<and> getChainIdForWallet ''svm'' '''' = Inr SOLANA_MAINNET_CHAIN_ID
   \<and> getChainIdForWallet ''svm'' ''testnet'' = Inr SOLANA_MAINNET_CHAIN_ID"
proof -
  have e1: "getChainIdForWallet ''svm'' ''devnet'' = Inr SOLANA_DEVNET_CHAIN_ID"
    by code_simp
  have e2: "getChainIdForWallet ''svm'' ''mainnet'' = Inr SOLANA_MAINNET_CHAIN_ID"
    by code_simp
  have e3: "getChainIdForWallet ''svm'' '''' = Inr SOLANA_MAINNET_CHAIN_ID"
    by code_simp
  have e4: "getChainIdForWallet ''svm'' ''testnet'' = Inr SOLANA_MAINNET_CHAIN_ID"
    by code_simp
  show ?thesis
    using getChainIdForWallet_svm_rule [of s] e1 e2 e3 e4 by simp
qed

theorem C5_getChainIdForWallet_svm_witness:
  "sublist ''devnet'' (toLowerCase ''Solana-DevNet'')
   \<and> getChainIdForWallet ''svm'' ''Solana-DevNet'' = Inr SOLANA_DEVNET_CHAIN_ID
   \<and> \<not> sublist ''devnet'' (toLowerCase ''TESTNET'')
   \<and> getChainIdForWallet ''svm'' ''TESTNET'' = Inr SOLANA_MAINNET_CHAIN_ID
   \<and> SOLANA_DEVNET_CHAIN_ID \<noteq> SOLANA_MAINNET_CHAIN_ID"
proof -
  have h1: "sublist ''devnet'' (toLowerCase ''Solana-DevNet'')"
    by code_simp
  have h2: "\<not> sublist ''devnet'' (toLowerCase ''TESTNET'')"
    by code_simp
  have h3: "SOLANA_DEVNET_CHAIN_ID \<noteq> SOLANA_MAINNET_CHAIN_ID"
    by code_simp
  show ?thesis
    using h1 h2 h3 C5_getChainIdForWallet_svm [of "''Solana-DevNet''"]
      C5_getChainIdForWallet_svm [of "''TESTNET''"]
    by simp
qed

section \<open>SVM keys\<close>

lemma validateSvmPrivateKey_result:
  "validateSvmPrivateKey L s = Inr (\<exists>d. bs58_decode L s = Inr d \<and> length d = 64)"
  by (cases "bs58_decode L s") (simp_all add: validateSvmPrivateKey_def try_catch_def)

lemma ref_decode_bad: "base58_decode ''0OIl'' = Inl (Error ''Non-base58 character'')"
  by (simp add: base58_decode_def BASE58_ALPHABET_def)

lemma ref_decode_short:
  "base58_decode ''2NEpo7TZRRrLZSi2U'' = Inr [72,101,108,108,111,32,87,111,114,108,100,33]"
  by (simp add: base58_decode_def BASE58_ALPHABET_def)

lemma ref_decode_key:
  "base58_decode ''4rL4RCWHz3iNCdCaveD8KcHfV9YWGsqSHFPo7X2zBNwa4rL4RCWHz3iNCdCaveD8KcHfV9YWGsqSHFPo7X2zBNwa''
   = Inr [192, 151, 17, 99, 119, 173, 13, 250, 199, 154, 171, 27, 144, 194, 178, 193, 253, 175, 169, 59, 54, 62, 71, 159, 120, 101, 37, 0, 183, 94, 235, 241, 59, 6, 77, 119, 88, 98, 67, 100, 2, 214, 102, 62, 90, 73, 38, 252, 236, 24, 62, 190, 184, 90, 106, 136, 181, 81, 251, 82, 175, 197, 144, 145]"
  by (simp add: base58_decode_def BASE58_ALPHABET_def)

text \<open>
  C3: for every string \<open>s\<close>, \<open>validateSvmPrivateKey\<close> returns a boolean and never throws (its
  result is always an \<open>Inr\<close>); the boolean is true if and only if \<open>s\<close> base58-decodes and the
  decoded bytes are exactly 64; a decode failure is caught and yields false. This holds for
  every behaviour of the decoder.
\<close>

theorem C3_validateSvmPrivateKey:
  "validateSvmPrivateKey L s = Inr (\<exists>d. bs58_decode L s = Inr d \<and> length d = 64)
   \<and> ((\<exists>e. bs58_decode L s = Inl e) \<longrightarrow> validateSvmPrivateKey L s = Inr False)"
  using validateSvmPrivateKey_result [of L s] by auto

theorem C3_validateSvmPrivateKey_witness:
  "validateSvmPrivateKey reference_libs
     ''4rL4RCWHz3iNCdCaveD8KcHfV9YWGsqSHFPo7X2zBNwa4rL4RCWHz3iNCdCaveD8KcHfV9YWGsqSHFPo7X2zBNwa''
     = Inr True
   \<and> validateSvmPrivateKey reference_libs ''2NEpo7TZRRrLZSi2U'' = Inr False
   \<and> (\<exists>e. bs58_decode reference_libs ''0OIl'' = Inl e)
   \<and> validateSvmPrivateKey reference_libs ''0OIl'' = Inr False"
  using C3_validateSvmPrivateKey [of reference_libs
      "''4rL4RCWHz3iNCdCaveD8KcHfV9YWGsqSHFPo7X2zBNwa4rL4RCWHz3iNCdCaveD8KcHfV9YWGsqSHFPo7X2zBNwa''"]
    C3_validateSvmPrivateKey [of reference_libs "''2NEpo7TZRRrLZSi2U''"]
    C3_validateSvmPrivateKey [of reference_libs "''0OIl''"]
  by (simp add: reference_libs_def ref_decode_key ref_decode_short ref_decode_bad)

section \<open>EVM keys\<close>

lemma match_repeat_Some:
  "match_repeat cl n s = Some r \<longleftrightarrow>
     (\<exists>h. s = h @ r \<and> length h = n \<and> (\<forall>c\<in>set h. class_matches cl c))"
proof (induction n arbitrary: s)
  case 0
  then show ?case by auto
next
  case (Suc n)
  show ?case
  proof (cases s)
    case Nil
    then show ?thesis by auto
  next
    case (Cons c cs)
    show ?thesis
    proof
      assume "match_repeat cl (Suc n) s = Some r"
      with Cons have m: "class_matches cl c" and "match_repeat cl n cs = Some r"
        by (auto split: if_splits)
      with Suc.IH obtain h where "cs = h @ r" "length h = n" "\<forall>c\<in>set h. class_matches cl c"
        by blast
      with m Cons have "s = (c # h) @ r \<and> length (c # h) = Suc n
          \<and> (\<forall>x\<in>set (c # h). class_matches cl x)"
        by simp
      then show "\<exists>h. s = h @ r \<and> length h = Suc n \<and> (\<forall>c\<in>set h. class_matches cl c)"
        by blast
    next
      assume "\<exists>h. s = h @ r \<and> length h = Suc n \<and> (\<forall>c\<in>set h. class_matches cl c)"
      then obtain h where h: "s = h @ r" "length h = Suc n" "\<forall>c\<in>set h. class_matches cl c"
        by blast
      then obtain x h' where h': "h = x # h'" by (cases h) auto
      with h Cons have "x = c" "cs = h' @ r" "length h' = n"
          "\<forall>c\<in>set h'. class_matches cl c" "class_matches cl c"
        by auto
      with Suc.IH Cons show "match_repeat cl (Suc n) s = Some r"
        by auto
    qed
  qed
qed

lemma hex_class: "class_matches EVM_KEY_HEX c \<longleftrightarrow> c \<in> hexDigits"
proof -
  define n where "n = (of_char c :: nat)"
  have "class_matches EVM_KEY_HEX c
     \<longleftrightarrow> (48 \<le> n \<and> n \<le> 57) \<or> (97 \<le> n \<and> n \<le> 102) \<or> (65 \<le> n \<and> n \<le> 70)"
    by (simp add: n_def EVM_KEY_HEX_def)
  also have "\<dots> \<longleftrightarrow> n \<in> set ([48..<58] @ [97..<103] @ [65..<71])"
    by (simp only: set_append set_upt Un_iff atLeastLessThan_iff) arith
  also have "\<dots> \<longleftrightarrow> n \<in> {48,49,50,51,52,53,54,55,56,57,97,98,99,100,101,102,65,66,67,68,69,70}"
    by simp
  also have "\<dots> \<longleftrightarrow> n \<in> of_char ` hexDigits"
    by (simp add: hexDigits_def)
  also have "\<dots> \<longleftrightarrow> c \<in> hexDigits"
    unfolding n_def by (auto simp: inj_image_mem_iff [OF inj_of_char])
  finally show ?thesis .
qed

lemma match_pattern_Cons:
  "match_pattern ((cl, n) # items) s = Some r \<longleftrightarrow>
     (\<exists>h rest. s = h @ rest \<and> length h = n \<and> (\<forall>c\<in>set h. class_matches cl c)
        \<and> match_pattern items rest = Some r)"
proof (cases "match_repeat cl n s")
  case None
  then have "\<not> (\<exists>h rest. s = h @ rest \<and> length h = n \<and> (\<forall>c\<in>set h. class_matches cl c))"
    using match_repeat_Some [of cl n s] by auto
  with None show ?thesis by auto
next
  case (Some rest)
  then obtain h where h: "s = h @ rest" "length h = n" "\<forall>c\<in>set h. class_matches cl c"
    using match_repeat_Some [of cl n s rest] by auto
  show ?thesis
  proof
    assume "match_pattern ((cl, n) # items) s = Some r"
    with Some have "match_pattern items rest = Some r" by simp
    with h show "\<exists>h rest. s = h @ rest \<and> length h = n \<and> (\<forall>c\<in>set h. class_matches cl c)
        \<and> match_pattern items rest = Some r" by blast
  next
    assume "\<exists>h rest. s = h @ rest \<and> length h = n \<and> (\<forall>c\<in>set h. class_matches cl c)
        \<and> match_pattern items rest = Some r"
    then obtain h' rest' where h': "s = h' @ rest'" "length h' = n"
        "match_pattern items rest' = Some r"
      by blast
    with h have "rest' = rest" by auto
    with h' Some show "match_pattern ((cl, n) # items) s = Some r" by simp
  qed
qed

lemma lit_run: "length h = 1 \<and> (\<forall>c\<in>set h. class_matches (Lit l) c) \<longleftrightarrow> h = [l]"
  by (cases h) auto

lemma validateEvmPrivateKey_iff:
  "validateEvmPrivateKey s \<longleftrightarrow>
     (\<exists>h. s = ''0x'' @ h \<and> length h = 64 \<and> set h \<subseteq> hexDigits)"
proof
  assume "validateEvmPrivateKey s"
  then have "match_pattern [(Lit CHR ''0'', 1), (Lit CHR ''x'', 1), (EVM_KEY_HEX, 64)] s = Some []"
    by (simp add: validateEvmPrivateKey_def regex_test_def)
  then obtain h1 r1 where 1: "s = h1 @ r1"
      "length h1 = 1 \<and> (\<forall>c\<in>set h1. class_matches (Lit CHR ''0'') c)"
      "match_pattern [(Lit CHR ''x'', 1), (EVM_KEY_HEX, 64)] r1 = Some []"
    unfolding match_pattern_Cons by blast
  then obtain h2 r2 where 2: "r1 = h2 @ r2"
      "length h2 = 1 \<and> (\<forall>c\<in>set h2. class_matches (Lit CHR ''x'') c)"
      "match_pattern [(EVM_KEY_HEX, 64)] r2 = Some []"
    unfolding match_pattern_Cons by blast
  then obtain h3 r3 where 3: "r2 = h3 @ r3" "length h3 = 64"
      "\<forall>c\<in>set h3. class_matches EVM_KEY_HEX c" "match_pattern [] r3 = Some []"
    unfolding match_pattern_Cons by blast
  from 1 2 have "h1 = ''0''" "h2 = ''x''" unfolding lit_run by blast+
  moreover from 3 have "r3 = []" by simp
  ultimately have "s = ''0x'' @ h3" using 1 2 3 by simp
  moreover from 3 have "set h3 \<subseteq> hexDigits" by (auto simp only: hex_class)
  ultimately show "\<exists>h. s = ''0x'' @ h \<and> length h = 64 \<and> set h \<subseteq> hexDigits"
    using 3 by blast
next
  assume "\<exists>h. s = ''0x'' @ h \<and> length h = 64 \<and> set h \<subseteq> hexDigits"
  then obtain h where h: "s = ''0x'' @ h" "length h = 64" "set h \<subseteq> hexDigits"
    by blast
  then have c: "\<forall>c\<in>set h. class_matches EVM_KEY_HEX c"
    by (auto simp only: hex_class)
  have "match_pattern [(EVM_KEY_HEX, 64)] h = Some []"
    unfolding match_pattern_Cons using h(2) c by (intro exI [of _ h] exI [of _ "[]"]) simp
  then have "match_pattern [(Lit CHR ''x'', 1), (EVM_KEY_HEX, 64)] (''x'' @ h) = Some []"
    unfolding match_pattern_Cons [of "Lit CHR ''x''"]
    by (intro exI [of _ "''x''"] exI [of _ h]) simp
  then have "match_pattern [(Lit CHR ''0'', 1), (Lit CHR ''x'', 1), (EVM_KEY_HEX, 64)]
      (''0'' @ ''x'' @ h) = Some []"
    unfolding match_pattern_Cons [of "Lit CHR ''0''"]
    by (intro exI [of _ "''0''"] exI [of _ "''x'' @ h"]) simp
  with h show "validateEvmPrivateKey s"
    by (simp add: validateEvmPrivateKey_def regex_test_def)
qed

text \<open>
  C4: for every string \<open>s\<close>, \<open>validateEvmPrivateKey\<close> is true if and only if \<open>s\<close> matches
  \<^verbatim>\<open>^0x[0-9a-fA-F]{64}$\<close>, that is, \<open>s\<close> is \<open>0x\<close> followed by exactly 64 hexadecimal digits of
  either case; a string without the prefix, of another length, or with a character that is
  not a hexadecimal digit yields false.
\<close>

theorem C4_validateEvmPrivateKey:
  "(validateEvmPrivateKey s \<longleftrightarrow>
      (\<exists>h. s = ''0x'' @ h \<and> length h = 64 \<and> set h \<subseteq> hexDigits))
   \<and> (take 2 s \<noteq> ''0x'' \<longrightarrow> \<not> validateEvmPrivateKey s)
   \<and> (length s \<noteq> 66 \<longrightarrow> \<not> validateEvmPrivateKey s)
   \<and> ((\<exists>c\<in>set (drop 2 s). c \<notin> hexDigits) \<longrightarrow> \<not> validateEvmPrivateKey s)"
proof -
  have "\<not> validateEvmPrivateKey s" if "take 2 s \<noteq> ''0x''"
    using that unfolding validateEvmPrivateKey_iff by auto
  moreover have "\<not> validateEvmPrivateKey s" if "length s \<noteq> 66"
    using that unfolding validateEvmPrivateKey_iff by auto
  moreover have "\<not> validateEvmPrivateKey s" if "\<exists>c\<in>set (drop 2 s). c \<notin> hexDigits"
    using that unfolding validateEvmPrivateKey_iff by auto
  ultimately show ?thesis
    using validateEvmPrivateKey_iff [of s] by blast
qed

lemma evm_key_ok:
  "validateEvmPrivateKey ''0x1234567890abcdef1234567890abcdef1234567890ABCDEF1234567890abcdef''"
  by code_simp

theorem C4_validateEvmPrivateKey_witness:
  "validateEvmPrivateKey ''0x1234567890abcdef1234567890abcdef1234567890ABCDEF1234567890abcdef''
   \<and> (\<exists>h. ''0x1234567890abcdef1234567890abcdef1234567890ABCDEF1234567890abcdef'' = ''0x'' @ h
          \<and> length h = 64 \<and> set h \<subseteq> hexDigits)
   \<and> take 2 ''1234567890abcdef1234567890abcdef1234567890abcdef1234567890abcdef00'' \<noteq> ''0x''
   \<and> \<not> validateEvmPrivateKey ''1234567890abcdef1234567890abcdef1234567890abcdef1234567890abcdef00''
   \<and> length ''0xdeadbeef'' \<noteq> 66
   \<and> \<not> validateEvmPrivateKey ''0xdeadbeef''
   \<and> (\<exists>c\<in>set (drop 2 ''0x1234567890abcdef1234567890abcdef1234567890abcdef1234567890abcdeg'').
         c \<notin> hexDigits)
   \<and> \<not> validateEvmPrivateKey
         ''0x1234567890abcdef1234567890abcdef1234567890abcdef1234567890abcdeg''"
proof -
  have h1: "take 2 ''1234567890abcdef1234567890abcdef1234567890abcdef1234567890abcdef00'' \<noteq> ''0x''"
    by simp
  have h2: "length ''0xdeadbeef'' \<noteq> 66"
    by simp
  have h3: "\<exists>c\<in>set (drop 2 ''0x1234567890abcdef1234567890abcdef1234567890abcdef1234567890abcdeg'').
         c \<notin> hexDigits"
    by (simp add: hexDigits_def)
  show ?thesis
    using evm_key_ok h1 h2 h3
      C4_validateEvmPrivateKey
        [of "''0x1234567890abcdef1234567890abcdef1234567890ABCDEF1234567890abcdef''"]
      C4_validateEvmPrivateKey
        [of "''1234567890abcdef1234567890abcdef1234567890abcdef1234567890abcdef00''"]
      C4_validateEvmPrivateKey [of "''0xdeadbeef''"]
      C4_validateEvmPrivateKey
        [of "''0x1234567890abcdef1234567890abcdef1234567890abcdef1234567890abcdeg''"]
    by blast
qed

section \<open>The signer factory\<close>

lemma validateWalletConfig_total: "\<exists>b. validateWalletConfig L wt pk = Inr b"
  by (auto simp: validateWalletConfig_def validateSvmPrivateKey_result)

lemma validateWalletConfig_other:
  "wt \<noteq> ''svm'' \<Longrightarrow> wt \<noteq> ''evm'' \<Longrightarrow> validateWalletConfig L wt pk = Inr False"
  by (simp add: validateWalletConfig_def)

lemma validateWalletConfig_True:
  "validateWalletConfig L wt pk = Inr True \<Longrightarrow> wt = ''svm'' \<or> wt = ''evm''"
  by (auto simp: validateWalletConfig_def split: if_splits)

lemma createSignerFromConfig_no_walletType:
  "falsy (walletType c) \<Longrightarrow>
     createSignerFromConfig L c = Inl (Error ''Wallet type is required (svm or evm)'')"
  by (auto simp: createSignerFromConfig_def falsy_def split: option.splits)

lemma createSignerFromConfig_no_privateKey:
  "walletType c = Some wt \<Longrightarrow> wt \<noteq> [] \<Longrightarrow> falsy (privateKey c) \<Longrightarrow>
     createSignerFromConfig L c = Inl (Error ''Private key is required'')"
  by (auto simp: createSignerFromConfig_def falsy_def split: option.splits)

lemma createSignerFromConfig_invalid:
  "walletType c = Some wt \<Longrightarrow> wt \<noteq> [] \<Longrightarrow> privateKey c = Some pk \<Longrightarrow> pk \<noteq> [] \<Longrightarrow>
   validateWalletConfig L wt pk = Inr False \<Longrightarrow>
     createSignerFromConfig L c =
       Inl (Error (''Invalid private key format for '' @ wt @ '' wallet. Expected: ''
                   @ expectedFormat wt))"
  by (simp add: createSignerFromConfig_def)

lemma createSignerFromConfig_Inr:
  assumes "createSignerFromConfig L c = Inr sg"
  shows "\<exists>wt pk. walletType c = Some wt \<and> wt \<noteq> [] \<and> privateKey c = Some pk \<and> pk \<noteq> []
           \<and> validateWalletConfig L wt pk = Inr True"
proof (cases "walletType c")
  case None
  with assms show ?thesis by (simp add: createSignerFromConfig_def)
next
  case wt: (Some wt)
  show ?thesis
  proof (cases "privateKey c")
    case None
    with wt assms show ?thesis by (simp add: createSignerFromConfig_def split: if_splits)
  next
    case pk: (Some pk)
    from wt pk assms have ne: "wt \<noteq> []" "pk \<noteq> []"
      by (auto simp: createSignerFromConfig_def split: if_splits)
    obtain b where b: "validateWalletConfig L wt pk = Inr b"
      using validateWalletConfig_total by blast
    with wt pk ne assms have "b"
      by (auto simp: createSignerFromConfig_def split: if_splits)
    with wt pk ne b show ?thesis by simp
  qed
qed

lemma chain_svm:
  "(case chainId c of None \<Rightarrow> Inr None
    | Some cid \<Rightarrow> if cid = [] then Inr None
                 else map_sum id Some (getChainIdForWallet ''svm'' cid))
   = (Inr (if falsy (chainId c) then None
           else Some (if sublist ''devnet'' (toLowerCase (the (chainId c)))
                      then SOLANA_DEVNET_CHAIN_ID else SOLANA_MAINNET_CHAIN_ID)) :: error + string option)"
  by (simp add: falsy_def getChainIdForWallet_svm_rule split: option.splits)

lemma chain_evm:
  "(case chainId c of None \<Rightarrow> Inr None
    | Some cid \<Rightarrow> if cid = [] then Inr None
                 else map_sum id Some (getChainIdForWallet ''evm'' cid))
   = (Inr (if falsy (chainId c) then None
           else Some (if sublist ''sepolia'' (toLowerCase (the (chainId c)))
                         \<or> the (chainId c) = ''11155111''
                      then ''eip155:11155111'' else EVM_MAINNET_CHAIN_ID)) :: error + string option)"
  by (simp add: falsy_def getChainIdForWallet_evm_rule split: option.splits)

lemma createSignerFromConfig_dispatch:
  assumes "walletType c = Some wt" "wt \<noteq> []" "privateKey c = Some pk" "pk \<noteq> []"
    and v: "validateWalletConfig L wt pk = Inr True"
  shows "(wt = ''svm'' \<and> createSignerFromConfig L c =
            createSvmSigner L pk
              (if falsy (chainId c) then None
               else Some (if sublist ''devnet'' (toLowerCase (the (chainId c)))
                          then SOLANA_DEVNET_CHAIN_ID else SOLANA_MAINNET_CHAIN_ID)))
       \<or> (wt = ''evm'' \<and> createSignerFromConfig L c =
            createEvmSigner L pk
              (if falsy (chainId c) then None
               else Some (if sublist ''sepolia'' (toLowerCase (the (chainId c)))
                             \<or> the (chainId c) = ''11155111''
                          then ''eip155:11155111'' else EVM_MAINNET_CHAIN_ID)))"
proof -
  from v consider "wt = ''svm''" | "wt = ''evm''"
    using validateWalletConfig_True by blast
  then show ?thesis
  proof cases
    case 1
    with assms show ?thesis
      by (simp add: createSignerFromConfig_def chain_svm)
  next
    case 2
    with assms show ?thesis
      by (simp add: createSignerFromConfig_def chain_evm)
  qed
qed

lemma ref_validate_evm_ok:
  "validateWalletConfig reference_libs ''evm''
     ''0x1234567890abcdef1234567890abcdef1234567890ABCDEF1234567890abcdef'' = Inr True"
  using evm_key_ok by (simp add: validateWalletConfig_def)

lemma ref_validate_evm_short:
  "validateWalletConfig reference_libs ''evm'' ''0xdeadbeef'' = Inr False"
proof -
  have "\<not> validateEvmPrivateKey ''0xdeadbeef''"
    unfolding validateEvmPrivateKey_iff by auto
  then show ?thesis by (simp add: validateWalletConfig_def)
qed

lemma ref_validate_evm_empty:
  "validateWalletConfig reference_libs ''evm'' '''' = Inr False"
proof -
  have "\<not> validateEvmPrivateKey ''''"
    unfolding validateEvmPrivateKey_iff by auto
  then show ?thesis by (simp add: validateWalletConfig_def)
qed

lemma ref_validate_svm_ok:
  "validateWalletConfig reference_libs ''svm''
     ''4rL4RCWHz3iNCdCaveD8KcHfV9YWGsqSHFPo7X2zBNwa4rL4RCWHz3iNCdCaveD8KcHfV9YWGsqSHFPo7X2zBNwa''
   = Inr True"
  by (simp add: validateWalletConfig_def validateSvmPrivateKey_result reference_libs_def
      ref_decode_key)

text \<open>
  C2, as the claim states it, fails: a private key that is present but empty is rejected
  by the missing-key test, with \<open>Private key is required\<close>, although the key is not absent
  and \<open>validateWalletConfig\<close> is false for it; the claim gives the invalid-key-format error
  to this configuration.
\<close>

theorem C2_empty_privateKey_counterexample:
  "privateKey \<lparr>walletType = Some ''evm'', privateKey = Some '''', chainId = None\<rparr> \<noteq> None
   \<and> validateWalletConfig reference_libs ''evm'' '''' = Inr False
   \<and> createSignerFromConfig reference_libs
        \<lparr>walletType = Some ''evm'', privateKey = Some '''', chainId = None\<rparr>
      = Inl (Error ''Private key is required'')
   \<and> createSignerFromConfig reference_libs
        \<lparr>walletType = Some ''evm'', privateKey = Some '''', chainId = None\<rparr>
      \<noteq> Inl (Error (''Invalid private key format for '' @ ''evm'' @ '' wallet. Expected: ''
                     @ expectedFormat ''evm''))"
  using ref_validate_evm_empty by (simp add: createSignerFromConfig_def)

text \<open>
  C2, amended: for every configuration \<open>c\<close>, \<open>createSignerFromConfig\<close> fails with
  \<open>Wallet type is required\<close> if the wallet type is absent or the empty string; otherwise
  with \<open>Private key is required\<close> if the private key is absent or the empty string;
  otherwise, if \<open>validateWalletConfig\<close> is false, with the invalid-key-format error, whose
  message names the wallet type and the expected format. The three failures are results of
  the checks alone, whatever the key constructors do, and a signer is returned only for a
  configuration that passes all three checks.
\<close>

theorem C2_createSignerFromConfig_checks:
  "(falsy (walletType c) \<longrightarrow>
      createSignerFromConfig L c = Inl (Error ''Wallet type is required (svm or evm)''))
   \<and> (walletType c = Some wt \<and> wt \<noteq> [] \<and> falsy (privateKey c) \<longrightarrow>
      createSignerFromConfig L c = Inl (Error ''Private key is required''))
   \<and> (walletType c = Some wt \<and> wt \<noteq> [] \<and> privateKey c = Some pk \<and> pk \<noteq> []
        \<and> validateWalletConfig L wt pk = Inr False \<longrightarrow>
      createSignerFromConfig L c =
        Inl (Error (''Invalid private key format for '' @ wt @ '' wallet. Expected: ''
                    @ expectedFormat wt)))
   \<and> (createSignerFromConfig L c = Inr sg \<longrightarrow>
        (\<exists>wt' pk'. walletType c = Some wt' \<and> wt' \<noteq> [] \<and> privateKey c = Some pk' \<and> pk' \<noteq> []
           \<and> validateWalletConfig L wt' pk' = Inr True))"
  using createSignerFromConfig_no_walletType [of c L]
    createSignerFromConfig_no_privateKey [of c wt L]
    createSignerFromConfig_invalid [of c wt pk L]
    createSignerFromConfig_Inr [of L c sg]
  by blast

theorem C2_createSignerFromConfig_checks_witness:
  "createSignerFromConfig reference_libs
      \<lparr>walletType = None, privateKey = Some ''x'', chainId = None\<rparr>
    = Inl (Error ''Wallet type is required (svm or evm)'')
   \<and> createSignerFromConfig reference_libs
      \<lparr>walletType = Some ''svm'', privateKey = None, chainId = None\<rparr>
    = Inl (Error ''Private key is required'')
   \<and> createSignerFromConfig reference_libs
      \<lparr>walletType = Some ''evm'', privateKey = Some ''0xdeadbeef'', chainId = None\<rparr>
    = Inl (Error ''Invalid private key format for evm wallet. Expected: hex string starting with 0x (64 hex characters)'')
   \<and> createSignerFromConfig reference_libs
      \<lparr>walletType = Some ''evm'',
       privateKey = Some ''0x1234567890abcdef1234567890abcdef1234567890ABCDEF1234567890abcdef'',
       chainId = None\<rparr>
    = Inr (EvmClientSigner
            ''0x1234567890abcdef1234567890abcdef1234567890ABCDEF1234567890abcdef''
            EVM_MAINNET_CHAIN_ID)
   \<and> validateWalletConfig reference_libs ''evm''
        ''0x1234567890abcdef1234567890abcdef1234567890ABCDEF1234567890abcdef'' = Inr True"
proof -
  have r: "createSignerFromConfig reference_libs
      \<lparr>walletType = Some ''evm'',
       privateKey = Some ''0x1234567890abcdef1234567890abcdef1234567890ABCDEF1234567890abcdef'',
       chainId = None\<rparr>
    = Inr (EvmClientSigner
            ''0x1234567890abcdef1234567890abcdef1234567890ABCDEF1234567890abcdef''
            EVM_MAINNET_CHAIN_ID)"
    using ref_validate_evm_ok
    by (simp add: createSignerFromConfig_def createEvmSigner_def reference_libs_def)
  show ?thesis
    using r ref_validate_evm_short ref_validate_evm_ok
      C2_createSignerFromConfig_checks
        [of "\<lparr>walletType = None, privateKey = Some ''x'', chainId = None\<rparr>" reference_libs]
      C2_createSignerFromConfig_checks
        [of "\<lparr>walletType = Some ''svm'', privateKey = None, chainId = None\<rparr>"
            reference_libs "''svm''"]
      C2_createSignerFromConfig_checks
        [of "\<lparr>walletType = Some ''evm'', privateKey = Some ''0xdeadbeef'', chainId = None\<rparr>"
            reference_libs "''evm''" "''0xdeadbeef''"]
      C2_createSignerFromConfig_checks
        [of "\<lparr>walletType = Some ''evm'',
       privateKey = Some ''0x1234567890abcdef1234567890abcdef1234567890ABCDEF1234567890abcdef'',
       chainId = None\<rparr>" reference_libs "''evm''"
          "''0x1234567890abcdef1234567890abcdef1234567890ABCDEF1234567890abcdef''"
          "EvmClientSigner
            ''0x1234567890abcdef1234567890abcdef1234567890ABCDEF1234567890abcdef''
            EVM_MAINNET_CHAIN_ID"]
    by (simp add: falsy_def expectedFormat_def)
qed

text \<open>
  C9: in \<open>createSignerFromConfig\<close> the last branch, \<open>Unknown wallet type\<close>, is never taken.
  \<open>validateWalletConfig\<close> is false for every wallet type other than \<open>svm\<close> and \<open>evm\<close>, so a
  configuration that passes the missing-wallet-type, missing-private-key and
  \<open>validateWalletConfig\<close> checks has one of these two wallet types, and the result of the
  factory is the result of the constructor of that family.
\<close>

theorem C9_unknown_wallet_type_unreachable:
  "(wt \<noteq> ''svm'' \<and> wt \<noteq> ''evm'' \<longrightarrow> validateWalletConfig L wt pk = Inr False)
   \<and> (walletType c = Some wt \<and> wt \<noteq> [] \<and> privateKey c = Some pk \<and> pk \<noteq> []
        \<and> validateWalletConfig L wt pk = Inr True \<longrightarrow>
       (wt = ''svm'' \<and> createSignerFromConfig L c =
            createSvmSigner L pk
              (if falsy (chainId c) then None
               else Some (if sublist ''devnet'' (toLowerCase (the (chainId c)))
                          then SOLANA_DEVNET_CHAIN_ID else SOLANA_MAINNET_CHAIN_ID)))
       \<or> (wt = ''evm'' \<and> createSignerFromConfig L c =
            createEvmSigner L pk
              (if falsy (chainId c) then None
               else Some (if sublist ''sepolia'' (toLowerCase (the (chainId c)))
                             \<or> the (chainId c) = ''11155111''
                          then ''eip155:11155111'' else EVM_MAINNET_CHAIN_ID))))"
  using validateWalletConfig_other [of wt L pk]
    createSignerFromConfig_dispatch [of c wt pk L]
  by blast

theorem C9_unknown_wallet_type_unreachable_witness:
  "validateWalletConfig reference_libs ''btc'' ''0xdeadbeef'' = Inr False
   \<and> validateWalletConfig reference_libs ''svm''
       ''4rL4RCWHz3iNCdCaveD8KcHfV9YWGsqSHFPo7X2zBNwa4rL4RCWHz3iNCdCaveD8KcHfV9YWGsqSHFPo7X2zBNwa''
     = Inr True
   \<and> createSignerFromConfig reference_libs
       \<lparr>walletType = Some ''svm'',
        privateKey = Some ''4rL4RCWHz3iNCdCaveD8KcHfV9YWGsqSHFPo7X2zBNwa4rL4RCWHz3iNCdCaveD8KcHfV9YWGsqSHFPo7X2zBNwa'',
        chainId = Some ''devnet''\<rparr>
     = createSvmSigner reference_libs
         ''4rL4RCWHz3iNCdCaveD8KcHfV9YWGsqSHFPo7X2zBNwa4rL4RCWHz3iNCdCaveD8KcHfV9YWGsqSHFPo7X2zBNwa''
         (Some SOLANA_DEVNET_CHAIN_ID)"
proof -
  have d: "sublist ''devnet'' (toLowerCase ''devnet'')"
    by code_simp
  show ?thesis
    using d ref_validate_svm_ok
      C9_unknown_wallet_type_unreachable [of "''btc''" reference_libs "''0xdeadbeef''"]
      C9_unknown_wallet_type_unreachable
        [of "''svm''" reference_libs
          "''4rL4RCWHz3iNCdCaveD8KcHfV9YWGsqSHFPo7X2zBNwa4rL4RCWHz3iNCdCaveD8KcHfV9YWGsqSHFPo7X2zBNwa''"
          "\<lparr>walletType = Some ''svm'',
        privateKey = Some ''4rL4RCWHz3iNCdCaveD8KcHfV9YWGsqSHFPo7X2zBNwa4rL4RCWHz3iNCdCaveD8KcHfV9YWGsqSHFPo7X2zBNwa'',
        chainId = Some ''devnet''\<rparr>"]
    by (simp add: falsy_def)
qed

section \<open>Settings and the signer configuration\<close>

lemma nat_digits_lt10: "n < 10 \<Longrightarrow> nat_digits n = [''0123456789'' ! n]"
  by (subst nat_digits.simps) simp

lemma nat_digits_ge10:
  "10 \<le> n \<Longrightarrow> nat_digits n = nat_digits (n div 10) @ [''0123456789'' ! (n mod 10)]"
  by (subst nat_digits.simps) simp

lemma replicate_zeros:
  "replicate 5 CHR ''0'' = ''00000''"
  "replicate 20 CHR ''0'' = ''00000000000000000000''"
  by (simp_all add: numeral_eq_Suc)

lemma number_toString_examples:
  "number_toString (Finite False 42 2) = ''42''"
  "number_toString (Finite True 15 1) = ''-1.5''"
  "number_toString (Finite False 5 0) = ''0.5''"
  "number_toString (Finite False 1 (- 5)) = ''0.000001''"
  "number_toString (Finite False 1 (- 6)) = ''1e-7''"
  "number_toString (Finite False 1 21) = ''100000000000000000000''"
  "number_toString (Finite False 1 22) = ''1e+21''"
  "number_toString (Finite False 12345 22) = ''1.2345e+21''"
  by (simp_all add: format_decimal_def nat_digits_lt10 nat_digits_ge10 replicate_zeros)

lemma getSetting_store:
  "runtime key \<noteq> Undefined \<Longrightarrow> runtime key \<noteq> Null \<Longrightarrow>
     getSetting runtime env key d = Text (String_js (runtime key))"
  by (simp add: getSetting_def)

lemma getSetting_env:
  "runtime key = Undefined \<or> runtime key = Null \<Longrightarrow> env key = Some v \<Longrightarrow>
     getSetting runtime env key d = Text v"
  by (auto simp: getSetting_def env_lookup_def)

lemma getSetting_default:
  "runtime key = Undefined \<or> runtime key = Null \<Longrightarrow> env key = None \<Longrightarrow>
   key \<notin> set OBJECT_PROTOTYPE_KEYS \<Longrightarrow>
     getSetting runtime env key d = (case d of None \<Rightarrow> Unset | Some x \<Rightarrow> Text x)"
  by (auto simp: getSetting_def env_lookup_def)

lemma getSetting_inherited:
  "runtime key = Undefined \<or> runtime key = Null \<Longrightarrow> env key = None \<Longrightarrow>
   key \<in> set OBJECT_PROTOTYPE_KEYS \<Longrightarrow>
     getSetting runtime env key d = Inherited key"
  by (auto simp: getSetting_def env_lookup_def)

lemma getSetting_not_Inherited:
  "key \<notin> set OBJECT_PROTOTYPE_KEYS \<Longrightarrow> getSetting runtime env key d \<noteq> Inherited name"
  by (auto simp: getSetting_def env_lookup_def Let_def split: option.splits)

lemma fixed_keys:
  "''AIMO_WALLET_TYPE'' \<notin> set OBJECT_PROTOTYPE_KEYS"
  "''AIMO_PRIVATE_KEY'' \<notin> set OBJECT_PROTOTYPE_KEYS"
  "''AIMO_CHAIN_ID'' \<notin> set OBJECT_PROTOTYPE_KEYS"
  by (simp_all add: OBJECT_PROTOTYPE_KEYS_def)

lemma declared_string_getSetting:
  "key \<notin> set OBJECT_PROTOTYPE_KEYS \<Longrightarrow>
     (declared_string (getSetting runtime env key d) = None
        \<longleftrightarrow> getSetting runtime env key d = Unset)
     \<and> (declared_string (getSetting runtime env key d) = Some s
        \<longleftrightarrow> getSetting runtime env key d = Text s)"
  using getSetting_not_Inherited [of key runtime env d]
  by (cases "getSetting runtime env key d") auto

text \<open>
  C6: the claim has \<open>getSetting\<close> return the default whenever neither the settings store
  nor the environment sets the key, as the comment above the function says. The code does
  not for a key that names a property of \<^verbatim>\<open>Object.prototype\<close>: with nothing set for
  \<open>toString\<close>, \<^verbatim>\<open>process.env[key]\<close> is the inherited function, which is not \<^verbatim>\<open>undefined\<close>, so
  it is returned in place of the default, and it is not a string.
\<close>

theorem C6_getSetting_toString_not_default:
  "runtime_of [] ''toString'' = Undefined
   \<and> env_of [] ''toString'' = None
   \<and> getSetting (runtime_of []) (env_of []) ''toString'' (Some ''dflt'') = Inherited ''toString''
   \<and> getSetting (runtime_of []) (env_of []) ''toString'' (Some ''dflt'') \<noteq> Text ''dflt''
   \<and> getSetting (runtime_of []) (env_of []) ''toString'' None \<noteq> Unset"
  by (simp add: getSetting_def env_lookup_def OBJECT_PROTOTYPE_KEYS_def runtime_of_def
      env_of_def)

lemma getWalletType_eq:
  "getWalletType rt env =
     (if getSetting rt env ''AIMO_WALLET_TYPE'' None = Text ''svm'' then Some ''svm''
      else if getSetting rt env ''AIMO_WALLET_TYPE'' None = Text ''evm'' then Some ''evm''
      else None)"
  by (auto simp: getWalletType_def falsy_setting_def Let_def)

text \<open>
  C8: \<open>getWalletType\<close> returns \<open>svm\<close> or \<open>evm\<close> only when the resolved setting
  \<open>AIMO_WALLET_TYPE\<close> is exactly that string; for every other resolved value (the empty
  string, a misspelled string, no value) it returns \<open>undefined\<close>. It has no failing result.
\<close>

theorem C8_getWalletType:
  "(getWalletType rt env = Some w \<longrightarrow>
      (w = ''svm'' \<or> w = ''evm'') \<and> getSetting rt env ''AIMO_WALLET_TYPE'' None = Text w)
   \<and> (getSetting rt env ''AIMO_WALLET_TYPE'' None = Text ''svm'' \<longrightarrow>
        getWalletType rt env = Some ''svm'')
   \<and> (getSetting rt env ''AIMO_WALLET_TYPE'' None = Text ''evm'' \<longrightarrow>
        getWalletType rt env = Some ''evm'')
   \<and> (getSetting rt env ''AIMO_WALLET_TYPE'' None \<noteq> Text ''svm''
        \<and> getSetting rt env ''AIMO_WALLET_TYPE'' None \<noteq> Text ''evm'' \<longrightarrow>
        getWalletType rt env = None)"
  unfolding getWalletType_eq [of rt env] by (auto split: if_splits)

theorem C8_getWalletType_witness:
  "getWalletType (runtime_of []) (env_of [(''AIMO_WALLET_TYPE'', ''svm'')]) = Some ''svm''
   \<and> getWalletType (runtime_of [(''AIMO_WALLET_TYPE'', Str ''evm'')]) (env_of []) = Some ''evm''
   \<and> getWalletType (runtime_of []) (env_of [(''AIMO_WALLET_TYPE'', '''')]) = None
   \<and> getWalletType (runtime_of []) (env_of [(''AIMO_WALLET_TYPE'', ''EVM'')]) = None
   \<and> getWalletType (runtime_of [(''AIMO_WALLET_TYPE'', Bool True)]) (env_of []) = None
   \<and> getWalletType (runtime_of []) (env_of []) = None"
  using
    C8_getWalletType [of "runtime_of []" "env_of [(''AIMO_WALLET_TYPE'', ''svm'')]"]
    C8_getWalletType [of "runtime_of [(''AIMO_WALLET_TYPE'', Str ''evm'')]" "env_of []"]
    C8_getWalletType [of "runtime_of []" "env_of [(''AIMO_WALLET_TYPE'', '''')]"]
    C8_getWalletType [of "runtime_of []" "env_of [(''AIMO_WALLET_TYPE'', ''EVM'')]"]
    C8_getWalletType [of "runtime_of [(''AIMO_WALLET_TYPE'', Bool True)]" "env_of []"]
    C8_getWalletType [of "runtime_of []" "env_of []"]
  by (simp add: getSetting_def env_lookup_def OBJECT_PROTOTYPE_KEYS_def runtime_of_def
      env_of_def)

lemma getChainId_eq:
  "getChainId rt env =
     (if getSetting rt env ''AIMO_CHAIN_ID'' None = Unset
         \<or> getSetting rt env ''AIMO_CHAIN_ID'' None = Text []
      then None else declared_string (getSetting rt env ''AIMO_CHAIN_ID'' None))"
  by (auto simp: getChainId_def falsy_setting_def Let_def split: setting.splits)

lemma getChainId_not_empty: "getChainId rt env \<noteq> Some []"
  unfolding getChainId_eq by (auto simp: declared_string_getSetting [OF fixed_keys(3)])

lemma getWalletType_not_empty: "getWalletType rt env \<noteq> Some []"
  unfolding getWalletType_eq by auto

lemma getSignerConfig_eq:
  "getSignerConfig rt env =
     (if getWalletType rt env = None \<or> getPrivateKey rt env = None
         \<or> getPrivateKey rt env = Some []
      then None
      else Some \<lparr>walletType = getWalletType rt env, privateKey = getPrivateKey rt env,
                 chainId = getChainId rt env\<rparr>)"
  using getWalletType_not_empty [of rt env]
  by (auto simp: getSignerConfig_def falsy_def Let_def split: option.splits)

text \<open>
  C7, as the claim states it, fails: with the wallet type set to \<open>evm\<close> and the private key
  set to the empty string, the private key resolves (to the empty string) and so is not
  missing, yet \<open>getSignerConfig\<close> returns \<open>undefined\<close> rather than a configuration carrying
  this malformed key.
\<close>

theorem C7_empty_privateKey_counterexample:
  "getWalletType (runtime_of [])
      (env_of [(''AIMO_WALLET_TYPE'', ''evm''), (''AIMO_PRIVATE_KEY'', '''')]) = Some ''evm''
   \<and> getPrivateKey (runtime_of [])
      (env_of [(''AIMO_WALLET_TYPE'', ''evm''), (''AIMO_PRIVATE_KEY'', '''')]) = Some ''''
   \<and> getSignerConfig (runtime_of [])
      (env_of [(''AIMO_WALLET_TYPE'', ''evm''), (''AIMO_PRIVATE_KEY'', '''')]) = None"
  by (simp add: getSignerConfig_eq getWalletType_eq getPrivateKey_def getSetting_def env_lookup_def OBJECT_PROTOTYPE_KEYS_def
      runtime_of_def env_of_def)

text \<open>
  C7, amended: \<open>getSignerConfig\<close> returns \<open>undefined\<close> if the resolved wallet type is missing
  or the resolved private key is missing or the empty string; otherwise it returns a
  configuration carrying exactly the resolved wallet type, private key and optional chain
  id. No format validation takes place: the result does not depend on
  \<open>validateWalletConfig\<close>, and a nonempty malformed key is carried as it is.
\<close>

theorem C7_getSignerConfig:
  "getSignerConfig rt env =
     (if getWalletType rt env = None \<or> getPrivateKey rt env = None
         \<or> getPrivateKey rt env = Some []
      then None
      else Some \<lparr>walletType = getWalletType rt env, privateKey = getPrivateKey rt env,
                 chainId = getChainId rt env\<rparr>)"
  by (rule getSignerConfig_eq)

theorem C7_getSignerConfig_witness:
  "getSignerConfig (runtime_of [])
      (env_of [(''AIMO_WALLET_TYPE'', ''evm''), (''AIMO_PRIVATE_KEY'', ''not-a-key''),
               (''AIMO_CHAIN_ID'', ''sepolia'')])
     = Some \<lparr>walletType = Some ''evm'', privateKey = Some ''not-a-key'',
             chainId = Some ''sepolia''\<rparr>
   \<and> validateWalletConfig reference_libs ''evm'' ''not-a-key'' = Inr False
   \<and> getSignerConfig (runtime_of [])
      (env_of [(''AIMO_WALLET_TYPE'', ''solana''), (''AIMO_PRIVATE_KEY'', ''not-a-key'')]) = None
   \<and> getSignerConfig (runtime_of []) (env_of [(''AIMO_WALLET_TYPE'', ''svm'')]) = None"
proof -
  have "\<not> validateEvmPrivateKey ''not-a-key''"
    unfolding validateEvmPrivateKey_iff by auto
  then have v: "validateWalletConfig reference_libs ''evm'' ''not-a-key'' = Inr False"
    by (simp add: validateWalletConfig_def)
  show ?thesis
    using v
      C7_getSignerConfig [of "runtime_of []"
        "env_of [(''AIMO_WALLET_TYPE'', ''evm''), (''AIMO_PRIVATE_KEY'', ''not-a-key''),
               (''AIMO_CHAIN_ID'', ''sepolia'')]"]
      C7_getSignerConfig [of "runtime_of []"
        "env_of [(''AIMO_WALLET_TYPE'', ''solana''), (''AIMO_PRIVATE_KEY'', ''not-a-key'')]"]
      C7_getSignerConfig [of "runtime_of []" "env_of [(''AIMO_WALLET_TYPE'', ''svm'')]"]
    by (simp add: getWalletType_eq getPrivateKey_def getChainId_eq getSetting_def env_lookup_def OBJECT_PROTOTYPE_KEYS_def
        runtime_of_def env_of_def)
qed

lemma getSignerConfig_Some:
  assumes "getSignerConfig rt env = Some c"
  shows "walletType c = getWalletType rt env \<and> privateKey c = getPrivateKey rt env
         \<and> chainId c = getChainId rt env"
  using assms unfolding getSignerConfig_eq by (auto split: if_splits)

lemma createSvmSigner_default:
  "createSvmSigner L pk None = Inr sg \<Longrightarrow> \<exists>k. sg = SvmClientSigner k SOLANA_MAINNET_CHAIN_ID"
  by (auto simp: createSvmSigner_def split: sum.splits)

lemma createEvmSigner_default:
  "createEvmSigner L pk None = Inr sg \<Longrightarrow> \<exists>a. sg = EvmClientSigner a EVM_MAINNET_CHAIN_ID"
  by (auto simp: createEvmSigner_def split: sum.splits)

lemma createSignerFromConfig_no_chain:
  assumes "chainId c = None" "walletType c = Some wt" "privateKey c = Some pk"
    and "validateWalletConfig L wt pk = Inr True" "wt \<noteq> []" "pk \<noteq> []"
  shows "createSignerFromConfig L c =
           (if wt = ''svm'' then createSvmSigner L pk None else createEvmSigner L pk None)"
  using createSignerFromConfig_dispatch [of c wt pk L] assms
  by (auto simp: falsy_def)

text \<open>
  C10: \<open>getChainId\<close> turns an empty \<open>AIMO_CHAIN_ID\<close> setting into \<open>undefined\<close>. A configuration
  built by \<open>getSignerConfig\<close> carries the result of \<open>getChainId\<close>, which is \<open>undefined\<close> whenever
  the setting is absent or the empty string and is never the empty string; the factory
  then passes \<open>undefined\<close> to the constructor of the family, whose signer gets the family's
  mainnet identifier, and \<open>getChainIdForWallet\<close> is not applied to the empty string.
\<close>

theorem C10_getChainId_empty:
  "(getSetting rt env ''AIMO_CHAIN_ID'' None = Unset
      \<or> getSetting rt env ''AIMO_CHAIN_ID'' None = Text [] \<longrightarrow> getChainId rt env = None)
   \<and> getChainId rt env \<noteq> Some []
   \<and> (getSignerConfig rt env = Some c \<longrightarrow>
        chainId c = getChainId rt env \<and> chainId c \<noteq> Some [])
   \<and> (getSignerConfig rt env = Some c
        \<and> (getSetting rt env ''AIMO_CHAIN_ID'' None = Unset
            \<or> getSetting rt env ''AIMO_CHAIN_ID'' None = Text [])
        \<and> walletType c = Some wt \<and> privateKey c = Some pk
        \<and> validateWalletConfig L wt pk = Inr True \<longrightarrow>
        chainId c = None
        \<and> createSignerFromConfig L c =
            (if wt = ''svm'' then createSvmSigner L pk None else createEvmSigner L pk None))
   \<and> (createSvmSigner L pk None = Inr sg \<longrightarrow>
        (\<exists>k. sg = SvmClientSigner k SOLANA_MAINNET_CHAIN_ID))
   \<and> (createEvmSigner L pk None = Inr sg \<longrightarrow>
        (\<exists>a. sg = EvmClientSigner a EVM_MAINNET_CHAIN_ID))"
proof -
  have a: "getChainId rt env = None"
    if "getSetting rt env ''AIMO_CHAIN_ID'' None = Unset
      \<or> getSetting rt env ''AIMO_CHAIN_ID'' None = Text []"
    using that unfolding getChainId_eq by auto
  have b: "chainId c = getChainId rt env \<and> chainId c \<noteq> Some []"
    if "getSignerConfig rt env = Some c"
    using getSignerConfig_Some [OF that] getChainId_not_empty [of rt env] by simp
  have d: "chainId c = None
        \<and> createSignerFromConfig L c =
            (if wt = ''svm'' then createSvmSigner L pk None else createEvmSigner L pk None)"
    if g: "getSignerConfig rt env = Some c"
      and s: "getSetting rt env ''AIMO_CHAIN_ID'' None = Unset
            \<or> getSetting rt env ''AIMO_CHAIN_ID'' None = Text []"
      and w: "walletType c = Some wt" and p: "privateKey c = Some pk"
      and v: "validateWalletConfig L wt pk = Inr True"
  proof -
    from g s have n: "chainId c = None" using a b by simp
    from g w have "wt \<noteq> []"
      using getSignerConfig_Some [OF g] getWalletType_not_empty [of rt env] by auto
    moreover from g p have "pk \<noteq> []"
      unfolding getSignerConfig_eq by (auto split: if_splits)
    ultimately show ?thesis
      using n createSignerFromConfig_no_chain [OF n w p v] by simp
  qed
  show ?thesis
    using a b d getChainId_not_empty [of rt env]
      createSvmSigner_default [of L pk sg] createEvmSigner_default [of L pk sg]
    by blast
qed

theorem C10_getChainId_empty_witness:
  "getSetting (runtime_of [])
      (env_of [(''AIMO_WALLET_TYPE'', ''evm''),
               (''AIMO_PRIVATE_KEY'',
                ''0x1234567890abcdef1234567890abcdef1234567890ABCDEF1234567890abcdef''),
               (''AIMO_CHAIN_ID'', [])]) ''AIMO_CHAIN_ID'' None = Text []
   \<and> getSignerConfig (runtime_of [])
      (env_of [(''AIMO_WALLET_TYPE'', ''evm''),
               (''AIMO_PRIVATE_KEY'',
                ''0x1234567890abcdef1234567890abcdef1234567890ABCDEF1234567890abcdef''),
               (''AIMO_CHAIN_ID'', [])])
     = Some \<lparr>walletType = Some ''evm'',
             privateKey =
               Some ''0x1234567890abcdef1234567890abcdef1234567890ABCDEF1234567890abcdef'',
             chainId = None\<rparr>
   \<and> createSignerFromConfig reference_libs
        \<lparr>walletType = Some ''evm'',
         privateKey =
           Some ''0x1234567890abcdef1234567890abcdef1234567890ABCDEF1234567890abcdef'',
         chainId = None\<rparr>
     = Inr (EvmClientSigner
             ''0x1234567890abcdef1234567890abcdef1234567890ABCDEF1234567890abcdef''
             EVM_MAINNET_CHAIN_ID)"
proof -
  let ?key = "''0x1234567890abcdef1234567890abcdef1234567890ABCDEF1234567890abcdef''"
  let ?env = "env_of [(''AIMO_WALLET_TYPE'', ''evm''), (''AIMO_PRIVATE_KEY'', ?key),
               (''AIMO_CHAIN_ID'', [])]"
  let ?c = "\<lparr>walletType = Some ''evm'', privateKey = Some ?key, chainId = None\<rparr>"
  have s: "getSetting (runtime_of []) ?env ''AIMO_CHAIN_ID'' None = Text []"
    by (simp add: getSetting_def env_lookup_def OBJECT_PROTOTYPE_KEYS_def runtime_of_def env_of_def)
  have g: "getSignerConfig (runtime_of []) ?env = Some ?c"
    by (simp add: getSignerConfig_eq getWalletType_eq getPrivateKey_def getChainId_eq
        getSetting_def env_lookup_def OBJECT_PROTOTYPE_KEYS_def runtime_of_def env_of_def)
  have e: "createEvmSigner reference_libs ?key None
             = Inr (EvmClientSigner ?key EVM_MAINNET_CHAIN_ID)"
    by (simp add: createEvmSigner_def reference_libs_def)
  show ?thesis
    using s g e ref_validate_evm_ok
      C10_getChainId_empty [where rt = "runtime_of []" and env = ?env and c = ?c
        and wt = "''evm''" and pk = ?key and L = reference_libs
        and sg = "EvmClientSigner ?key EVM_MAINNET_CHAIN_ID"]
    by simp
qed

end
